theory Spec2Isabelle
  imports Complex_Main "HOL-Library.Sublist" "HOL-Library.Product_Lexorder"
begin

section \<open>Values of the program\<close>

text \<open>
  The program is \<^verbatim>\<open>src/api.py\<close>: one HTTP query against the Seoul real-estate
  endpoint, a filter over the XML rows, a conversion of the retained rows into a typed
  table, and the aggregates shown from that table.

  A Python \<^verbatim>\<open>str\<close> is a \<open>string\<close>; a value that is either a \<^verbatim>\<open>str\<close> or
  \<^verbatim>\<open>None\<close> is a \<open>string option\<close>. The exceptions the code can meet are values of
  \<open>py_error\<close>, and a computation that may raise returns \<open>py_error + 'a\<close>.
\<close>

datatype py_error = TypeError | ParseError | ZeroDivisionError

text \<open>
  A \<^verbatim>\<open><row>\<close> element is the list of its children, each a tag and the child's
  \<^verbatim>\<open>.text\<close>. ElementTree gives \<^verbatim>\<open>.text = None\<close> for a child without character
  data (\<^verbatim>\<open><CGG_NM/>\<close>), so the text is a \<open>string option\<close>.
  \<^verbatim>\<open>row.find(tag)\<close> is the first child with that tag, or \<^verbatim>\<open>None\<close>.
\<close>

type_synonym xml_row = "(string \<times> string option) list"

definition find_child :: "xml_row \<Rightarrow> string \<Rightarrow> string option option" where
  "find_child row tag = map_of row tag"

text \<open>
  \<^verbatim>\<open>row.find(T).text if row.find(T) is not None else ""\<close>
\<close>

definition text_or_empty :: "xml_row \<Rightarrow> string \<Rightarrow> string option" where
  "text_or_empty row tag = (case find_child row tag of None \<Rightarrow> Some [] | Some t \<Rightarrow> t)"

text \<open>
  \<^verbatim>\<open>a in b\<close> for a \<^verbatim>\<open>str\<close> \<open>a\<close>: substring containment when \<open>b\<close> is a
  \<^verbatim>\<open>str\<close>, and \<^verbatim>\<open>TypeError\<close> (argument of type NoneType is not iterable) when
  \<open>b\<close> is \<^verbatim>\<open>None\<close>.
\<close>

definition py_in :: "string \<Rightarrow> string option \<Rightarrow> py_error + bool" where
  "py_in a b = (case b of None \<Rightarrow> Inl TypeError | Some s \<Rightarrow> Inr (sublist a s))"

section \<open>The filter of \<^verbatim>\<open>query_real_estate\<close>\<close>

text \<open>
  The dictionary built for a retained row. Its keys are, in the source's order, the
  reception year, the district name, the sub-district name, the main and the sub lot
  number and the building name (the six text fields, \<open>lot_info\<close>), then the contract
  day, the amount and the floor area, still as text. The fields are named after the XML
  tags they are read from. The type of the six text cells is a parameter of
  \<open>lot_info\<close>: in a dictionary it is \<open>string option\<close>, in the table built
  from the dictionaries it is the type of a table cell.
\<close>

record 'c lot_info =
  rcpt_yr :: 'c
  cgg_nm :: 'c
  stdg_nm :: 'c
  mno :: 'c
  sno :: 'c
  bldg_nm :: 'c

record filtered_row = "string option lot_info" +
  ctrt_day_text :: "string option"
  thing_amt_text :: "string option"
  arch_area_text :: "string option"

text \<open>
  \<^verbatim>\<open>district in cgg_nm and (not dong or dong in stdg_nm)\<close>, evaluated left to
  right with Python's short circuit: the sub-district test is reached only when the
  district test is true and \<open>dong\<close> is not the empty string.
\<close>

definition row_matches :: "string \<Rightarrow> string \<Rightarrow> string option \<Rightarrow> string option \<Rightarrow> py_error + bool" where
  "row_matches district dong cgg stdg =
     (case py_in district cgg of
        Inl e \<Rightarrow> Inl e
      | Inr False \<Rightarrow> Inr False
      | Inr True \<Rightarrow> (if dong = [] then Inr True else py_in dong stdg))"

definition row_data :: "xml_row \<Rightarrow> filtered_row" where
  "row_data row =
     \<lparr> rcpt_yr = text_or_empty row ''RCPT_YR'',
       cgg_nm = text_or_empty row ''CGG_NM'',
       stdg_nm = text_or_empty row ''STDG_NM'',
       mno = text_or_empty row ''MNO'',
       sno = text_or_empty row ''SNO'',
       bldg_nm = text_or_empty row ''BLDG_NM'',
       ctrt_day_text = text_or_empty row ''CTRT_DAY'',
       thing_amt_text = text_or_empty row ''THING_AMT'',
       arch_area_text = text_or_empty row ''ARCH_AREA'' \<rparr>"

text \<open>
  The loop over the rows. An exception in the test of a row leaves the loop at that
  row, so the first row that raises decides the result.
\<close>

fun filter_rows :: "string \<Rightarrow> string \<Rightarrow> xml_row list \<Rightarrow> py_error + filtered_row list" where
  "filter_rows district dong [] = Inr []"
| "filter_rows district dong (row # rows) =
     (case row_matches district dong (text_or_empty row ''CGG_NM'') (text_or_empty row ''STDG_NM'') of
        Inl e \<Rightarrow> Inl e
      | Inr keep \<Rightarrow>
          (case filter_rows district dong rows of
             Inl e \<Rightarrow> Inl e
           | Inr filtered_results \<Rightarrow>
               Inr (if keep then row_data row # filtered_results else filtered_results)))"

text \<open>
  The HTTP exchange is the environment's answer to the one \<^verbatim>\<open>requests.get\<close>:
  either the call raises, or it returns a response with a status code and a body. The
  body is given by what \<^verbatim>\<open>ET.fromstring\<close> makes of it: a parse error, or a tree
  whose \<^verbatim>\<open>.//row\<close> elements are listed.
\<close>

datatype xml_body = Malformed | Document "xml_row list"

datatype http_exchange = RequestException | Response nat xml_body

text \<open>
  \<^verbatim>\<open>response.raise_for_status()\<close> raises for the statuses 400 to 599.
\<close>

definition raise_for_status :: "nat \<Rightarrow> bool" where
  "raise_for_status status_code = (400 \<le> status_code \<and> status_code < 600)"

text \<open>What the user is shown: \<^verbatim>\<open>st.error\<close> calls, in order.\<close>

datatype ui_event = St_error

text \<open>
  \<^verbatim>\<open>query_real_estate\<close>. Only the request and \<^verbatim>\<open>raise_for_status\<close> stand
  inside the \<^verbatim>\<open>try\<close>; \<^verbatim>\<open>ET.fromstring\<close> and the loop stand after it. The
  result is the list of reports and either the exception that leaves the function or the
  list it returns.
\<close>

definition query_real_estate ::
    "http_exchange \<Rightarrow> string \<Rightarrow> string \<Rightarrow> ui_event list \<times> (py_error + filtered_row list)" where
  "query_real_estate exchange district dong =
     (case exchange of
        RequestException \<Rightarrow> ([St_error], Inr [])
      | Response status_code body \<Rightarrow>
          if raise_for_status status_code then ([St_error], Inr [])
          else (case body of
                  Malformed \<Rightarrow> ([], Inl ParseError)
                | Document rows \<Rightarrow> ([], filter_rows district dong rows)))"

text \<open>
  A retained dictionary read again as a row: every key is a child carrying the
  dictionary's value.
\<close>

definition as_row :: "filtered_row \<Rightarrow> xml_row" where
  "as_row d =
     [(''RCPT_YR'', rcpt_yr d), (''CGG_NM'', cgg_nm d), (''STDG_NM'', stdg_nm d),
      (''MNO'', mno d), (''SNO'', sno d), (''BLDG_NM'', bldg_nm d),
      (''CTRT_DAY'', ctrt_day_text d), (''THING_AMT'', thing_amt_text d),
      (''ARCH_AREA'', arch_area_text d)]"

section \<open>Numbers\<close>

text \<open>
  The numeric columns are \<^verbatim>\<open>float64\<close>. A value that is not \<^verbatim>\<open>NaN\<close> is an
  infinity or a finite double, written \<open>Fin v\<close> with its exact value \<open>v\<close>; the order
  is that of the extended number line. The two zeros of the format are not told apart:
  they compare equal, both are false, and no division here has a zero divisor.
\<close>

datatype float64 = NegInf | Fin rat | PosInf

fun rank :: "float64 \<Rightarrow> int \<times> rat" where
  "rank NegInf = (- 1, 0)"
| "rank (Fin v) = (0, v)"
| "rank PosInf = (1, 0)"

instantiation float64 :: linorder
begin

definition less_eq_float64 :: "float64 \<Rightarrow> float64 \<Rightarrow> bool" where
  "less_eq_float64 x y = (rank x \<le> rank y)"

definition less_float64 :: "float64 \<Rightarrow> float64 \<Rightarrow> bool" where
  "less_float64 x y = (rank x < rank y)"

instance
proof
  fix x y z :: float64
  show "x < y \<longleftrightarrow> x \<le> y \<and> \<not> y \<le> x"
    unfolding less_eq_float64_def less_float64_def by (rule less_le_not_le)
  show "x \<le> x"
    unfolding less_eq_float64_def by simp
  show "x \<le> y \<Longrightarrow> y \<le> z \<Longrightarrow> x \<le> z"
    unfolding less_eq_float64_def by (rule order_trans)
  show "x \<le> y \<Longrightarrow> y \<le> x \<Longrightarrow> x = y"
    unfolding less_eq_float64_def by (cases x; cases y) auto
  show "x \<le> y \<or> y \<le> x"
    unfolding less_eq_float64_def by (rule linear)
qed

end

text \<open>
  The result of an arithmetic operation is the exact result rounded to the nearest
  double, ties to the even significand (IEEE 754 binary64: 53 significant bits, least
  exponent -1022 with gradual underflow, overflow to infinity from \<open>2 ^ 1024\<close> on).
  \<open>bits n\<close> is the length of \<open>n\<close> in binary and \<open>ilog2 a\<close> the exponent \<open>e\<close>
  with \<open>2 ^ e \<le> a < 2 ^ (e + 1)\<close>, for positive \<open>a\<close>.
\<close>

fun bits :: "nat \<Rightarrow> nat" where
  "bits n = (if n = 0 then 0 else Suc (bits (n div 2)))"

declare bits.simps [simp del]

definition pow2 :: "int \<Rightarrow> rat" where
  "pow2 e = (if 0 \<le> e then 2 ^ nat e else 1 / 2 ^ nat (- e))"

definition ilog2 :: "rat \<Rightarrow> int" where
  "ilog2 a =
     (if 1 \<le> a then int (bits (nat \<lfloor>a\<rfloor>)) - 1
      else (let k = int (bits (nat \<lfloor>1 / a\<rfloor>)) - 1
            in if a = pow2 (- k) then - k else - k - 1))"

definition round_half_even :: "rat \<Rightarrow> int" where
  "round_half_even n =
     (let f = \<lfloor>n\<rfloor>; r = n - of_int f
      in if r < 1 / 2 then f else if 1 / 2 < r then f + 1 else if even f then f else f + 1)"

definition round_pos :: "rat \<Rightarrow> float64" where
  "round_pos a =
     (let p = max (ilog2 a) (- 1022) - 52;
          m = of_int (round_half_even (a / pow2 p)) * pow2 p
      in if pow2 1024 \<le> m then PosInf else Fin m)"

definition round64 :: "rat \<Rightarrow> float64" where
  "round64 q =
     (if q = 0 then Fin 0
      else if 0 < q then round_pos q
      else (case round_pos (- q) of Fin m \<Rightarrow> Fin (- m) | _ \<Rightarrow> NegInf))"

datatype pynum = NaN | Num float64

text \<open>
  Python and NumPy on these numbers: \<^verbatim>\<open>bool(x)\<close> is false for zero only
  (\<^verbatim>\<open>NaN\<close> and the infinities are true); every comparison with \<^verbatim>\<open>NaN\<close> is
  false; an operation with a \<^verbatim>\<open>NaN\<close> operand is \<^verbatim>\<open>NaN\<close>, and so are
  infinity divided by infinity and the sum of the two infinities. \<open>float_div\<close> is the
  division by a divisor that is not zero; \<^verbatim>\<open>/\<close> raises on a zero divisor.
\<close>

definition truthy :: "pynum \<Rightarrow> bool" where
  "truthy x = (case x of NaN \<Rightarrow> True | Num v \<Rightarrow> v \<noteq> Fin 0)"

definition gt :: "pynum \<Rightarrow> rat \<Rightarrow> bool" where
  "gt x c = (case x of NaN \<Rightarrow> False | Num v \<Rightarrow> Fin c < v)"

fun float_div :: "pynum \<Rightarrow> pynum \<Rightarrow> pynum" where
  "float_div (Num (Fin a)) (Num (Fin b)) = Num (round64 (a / b))"
| "float_div (Num (Fin a)) (Num PosInf) = Num (Fin 0)"
| "float_div (Num (Fin a)) (Num NegInf) = Num (Fin 0)"
| "float_div (Num PosInf) (Num (Fin b)) = Num (if 0 < b then PosInf else NegInf)"
| "float_div (Num NegInf) (Num (Fin b)) = Num (if 0 < b then NegInf else PosInf)"
| "float_div x y = NaN"

definition truediv :: "pynum \<Rightarrow> pynum \<Rightarrow> py_error + pynum" where
  "truediv x y = (if y = Num (Fin 0) then Inl ZeroDivisionError else Inr (float_div x y))"

fun float_add :: "pynum \<Rightarrow> pynum \<Rightarrow> pynum" where
  "float_add (Num (Fin a)) (Num (Fin b)) = Num (round64 (a + b))"
| "float_add (Num PosInf) (Num NegInf) = NaN"
| "float_add (Num NegInf) (Num PosInf) = NaN"
| "float_add (Num PosInf) (Num y) = Num PosInf"
| "float_add (Num NegInf) (Num y) = Num NegInf"
| "float_add (Num x) (Num PosInf) = Num PosInf"
| "float_add (Num x) (Num NegInf) = Num NegInf"
| "float_add x y = NaN"

section \<open>The typed table of \<^verbatim>\<open>convert_data\<close>\<close>

text \<open>
  A calendar date is year, month and day; the lexicographic order of the triple is the
  order of time. A cell of the contract-day column is a timestamp or pandas' \<^verbatim>\<open>NaT\<close>.
\<close>

type_synonym date = "nat \<times> nat \<times> nat"

datatype timestamp = NaT | Ts date

text \<open>
  \<^verbatim>\<open>pd.DataFrame(results)\<close> stores the text of a dictionary as it is. What it does
  with a \<^verbatim>\<open>None\<close> depends on the pandas in use, which the repository does not fix:
  where text columns are object columns the \<^verbatim>\<open>None\<close> is kept; where pandas infers
  string columns (pandas 3, \<^verbatim>\<open>future.infer_string\<close>), a column that holds some text
  is a string column and a \<^verbatim>\<open>None\<close> in it is stored as \<^verbatim>\<open>NaN\<close>, while a column
  of \<^verbatim>\<open>None\<close> only stays an object column. The flag \<open>infer_string\<close> says which.
\<close>

datatype text_cell = NaN_cell | PyNone | Str string

definition frame_cell :: "bool \<Rightarrow> string option list \<Rightarrow> string option \<Rightarrow> text_cell" where
  "frame_cell infer_string column c =
     (case c of
        Some s \<Rightarrow> Str s
      | None \<Rightarrow> if infer_string \<and> (\<exists>x \<in> set column. x \<noteq> None) then NaN_cell else PyNone)"

text \<open>
  \<^verbatim>\<open>pd.to_datetime(col, format='%Y%m%d', errors='coerce')\<close> and
  \<^verbatim>\<open>pd.to_numeric(col, errors='coerce')\<close>, cell by cell. Which strings the library
  reads as a date or as a number is the library's matter and a parameter here
  (\<open>strptime\<close>, \<open>number\<close>: \<open>None\<close> where the library finds no value). What
  \<^verbatim>\<open>errors='coerce'\<close> adds is modelled: a cell that cannot be read becomes the
  missing value, and so does a cell that held \<^verbatim>\<open>None\<close>.
\<close>

definition to_datetime :: "(string \<Rightarrow> date option) \<Rightarrow> string option \<Rightarrow> timestamp" where
  "to_datetime strptime cell =
     (case cell of
        None \<Rightarrow> NaT
      | Some s \<Rightarrow> (case strptime s of None \<Rightarrow> NaT | Some d \<Rightarrow> Ts d))"

definition to_numeric :: "(string \<Rightarrow> float64 option) \<Rightarrow> string option \<Rightarrow> pynum" where
  "to_numeric number cell =
     (case cell of
        None \<Rightarrow> NaN
      | Some s \<Rightarrow> (case number s of None \<Rightarrow> NaN | Some v \<Rightarrow> Num v))"

text \<open>
  The function applied to every row for the unit price:
  \<^verbatim>\<open>amount / area if area and area > 0 else None\<close>.
\<close>

definition unit_price_lambda :: "pynum \<Rightarrow> pynum \<Rightarrow> py_error + pynum option" where
  "unit_price_lambda amount area =
     (if truthy area \<and> gt area 0
      then (case truediv amount area of Inl e \<Rightarrow> Inl e | Inr q \<Rightarrow> Inr (Some q))
      else Inr None)"

text \<open>
  A \<^verbatim>\<open>None\<close> that \<^verbatim>\<open>apply\<close> collects is a missing value of the new column, like
  \<^verbatim>\<open>NaN\<close>: \<^verbatim>\<open>isna\<close>, \<^verbatim>\<open>dropna\<close> and \<^verbatim>\<open>mean\<close> do not tell them apart.
\<close>

definition column_cell :: "pynum option \<Rightarrow> pynum" where
  "column_cell r = (case r of None \<Rightarrow> NaN | Some x \<Rightarrow> x)"

record txn = "text_cell lot_info" +
  ctrt_day :: timestamp
  thing_amt :: pynum
  arch_area :: pynum
  unit_price :: pynum

text \<open>
  A row of the table \<^verbatim>\<open>convert_data\<close> returns. The text cells are those of
  \<^verbatim>\<open>pd.DataFrame(results)\<close>, which looks at the whole column; the three coerced
  cells and the unit price depend on the row alone. The first row whose unit price
  raises ends the call.
\<close>

definition convert_row ::
    "bool \<Rightarrow> (string \<Rightarrow> date option) \<Rightarrow> (string \<Rightarrow> float64 option) \<Rightarrow> filtered_row list \<Rightarrow>
     filtered_row \<Rightarrow> py_error + txn" where
  "convert_row infer_string strptime number results r =
     (let day = to_datetime strptime (ctrt_day_text r);
          amount = to_numeric number (thing_amt_text r);
          area = to_numeric number (arch_area_text r)
      in case unit_price_lambda amount area of
           Inl e \<Rightarrow> Inl e
         | Inr u \<Rightarrow>
             Inr \<lparr> rcpt_yr = frame_cell infer_string (map rcpt_yr results) (rcpt_yr r),
                   cgg_nm = frame_cell infer_string (map cgg_nm results) (cgg_nm r),
                   stdg_nm = frame_cell infer_string (map stdg_nm results) (stdg_nm r),
                   mno = frame_cell infer_string (map mno results) (mno r),
                   sno = frame_cell infer_string (map sno results) (sno r),
                   bldg_nm = frame_cell infer_string (map bldg_nm results) (bldg_nm r),
                   ctrt_day = day, thing_amt = amount, arch_area = area,
                   unit_price = column_cell u \<rparr>)"

fun convert_rows ::
    "bool \<Rightarrow> (string \<Rightarrow> date option) \<Rightarrow> (string \<Rightarrow> float64 option) \<Rightarrow> filtered_row list \<Rightarrow>
     filtered_row list \<Rightarrow> py_error + txn list" where
  "convert_rows infer_string strptime number results [] = Inr []"
| "convert_rows infer_string strptime number results (r # rs) =
     (case convert_row infer_string strptime number results r of
        Inl e \<Rightarrow> Inl e
      | Inr t \<Rightarrow>
          (case convert_rows infer_string strptime number results rs of
             Inl e \<Rightarrow> Inl e
           | Inr ts \<Rightarrow> Inr (t # ts)))"

definition convert_data ::
    "bool \<Rightarrow> (string \<Rightarrow> date option) \<Rightarrow> (string \<Rightarrow> float64 option) \<Rightarrow> filtered_row list \<Rightarrow>
     py_error + txn list" where
  "convert_data infer_string strptime number results =
     (if results = [] then Inr []
      else convert_rows infer_string strptime number results results)"

subsection \<open>Readers for plain inputs\<close>

text \<open>
  Two readers to run the conversion on: eight decimal digits naming a day of the
  Gregorian calendar; and, for numbers, the words inf and -inf and an unsigned decimal
  number with an optional fraction, read as the nearest double.
\<close>

definition digit :: "char \<Rightarrow> nat option" where
  "digit c = (let k = (of_char c :: nat) in if 48 \<le> k \<and> k \<le> 57 then Some (k - 48) else None)"

fun digits :: "nat \<Rightarrow> string \<Rightarrow> nat option" where
  "digits acc [] = Some acc"
| "digits acc (c # cs) = (case digit c of None \<Rightarrow> None | Some k \<Rightarrow> digits (10 * acc + k) cs)"

definition is_leap :: "nat \<Rightarrow> bool" where
  "is_leap y = (y mod 4 = 0 \<and> (y mod 100 \<noteq> 0 \<or> y mod 400 = 0))"

definition days_in_month :: "nat \<Rightarrow> nat \<Rightarrow> nat" where
  "days_in_month y m =
     (if m = 2 then (if is_leap y then 29 else 28)
      else if m = 4 \<or> m = 6 \<or> m = 9 \<or> m = 11 then 30 else 31)"

definition strptime_Ymd :: "string \<Rightarrow> date option" where
  "strptime_Ymd s =
     (if length s \<noteq> 8 then None
      else (case (digits 0 (take 4 s), digits 0 (take 2 (drop 4 s)), digits 0 (drop 6 s)) of
              (Some y, Some m, Some d) \<Rightarrow>
                if 1 \<le> y \<and> 1 \<le> m \<and> m \<le> 12 \<and> 1 \<le> d \<and> d \<le> days_in_month y m
                then Some (y, m, d) else None
            | _ \<Rightarrow> None))"

definition decimal :: "string \<Rightarrow> rat option" where
  "decimal s =
     (let whole = takeWhile (\<lambda>c. c \<noteq> CHR ''.'') s;
          rest = dropWhile (\<lambda>c. c \<noteq> CHR ''.'') s
      in if whole = [] then None
         else (case digits 0 whole of
                 None \<Rightarrow> None
               | Some w \<Rightarrow>
                   if rest = [] then Some (of_nat w)
                   else if tl rest = [] then None
                   else (case digits 0 (tl rest) of
                           None \<Rightarrow> None
                         | Some f \<Rightarrow> Some (of_nat w + of_nat f / 10 ^ length (tl rest)))))"

definition float_reader :: "string \<Rightarrow> float64 option" where
  "float_reader s =
     (if s = ''inf'' then Some PosInf
      else if s = ''-inf'' then Some NegInf
      else (case decimal s of None \<Rightarrow> None | Some v \<Rightarrow> Some (round64 v)))"

section \<open>The views computed in \<^verbatim>\<open>main\<close>\<close>

subsection \<open>The contract-day range\<close>

text \<open>
  \<^verbatim>\<open>df[(df[day] >= pd.Timestamp(date_range[0])) & (df[day] <= pd.Timestamp(date_range[1]))]\<close>,
  applied when some contract day is present and the date input holds two dates. A
  comparison with \<^verbatim>\<open>NaT\<close> is false.
\<close>

definition ts_ge :: "timestamp \<Rightarrow> date \<Rightarrow> bool" where
  "ts_ge x d = (case x of NaT \<Rightarrow> False | Ts e \<Rightarrow> d \<le> e)"

definition ts_le :: "timestamp \<Rightarrow> date \<Rightarrow> bool" where
  "ts_le x d = (case x of NaT \<Rightarrow> False | Ts e \<Rightarrow> e \<le> d)"

definition date_filter :: "date list \<Rightarrow> txn list \<Rightarrow> txn list" where
  "date_filter date_range df =
     (if df \<noteq> [] \<and> (\<exists>t \<in> set df. ctrt_day t \<noteq> NaT)
      then (if length date_range = 2
            then filter (\<lambda>t. ts_ge (ctrt_day t) (date_range ! 0) \<and> ts_le (ctrt_day t) (date_range ! 1)) df
            else df)
      else df)"

subsection \<open>Summary figures\<close>

text \<open>
  A mean (\<^verbatim>\<open>Series.mean()\<close>, and the mean of a group) skips the missing values and
  is \<^verbatim>\<open>NaN\<close> when none is left; otherwise it is the \<^verbatim>\<open>float64\<close> sum of the
  values present divided by their number. In which order the library adds the values of
  a column, and whether it compensates the rounding, differs between its reductions and
  its versions and decides the last bits of a sum; the sum of a column is therefore a
  parameter, \<open>fsum\<close>. \<open>float_sum\<close> is the sum that adds the values present from left
  to right, each addition rounded.
  \<^verbatim>\<open>Series.empty\<close> is true for a column without rows only.
\<close>

fun valid :: "pynum list \<Rightarrow> float64 list" where
  "valid [] = []"
| "valid (NaN # xs) = valid xs"
| "valid (Num v # xs) = v # valid xs"

definition float_sum :: "pynum list \<Rightarrow> pynum" where
  "float_sum xs = foldl float_add (Num (Fin 0)) (map Num (valid xs))"

definition series_mean :: "(pynum list \<Rightarrow> pynum) \<Rightarrow> pynum list \<Rightarrow> pynum" where
  "series_mean fsum xs =
     (if valid xs = [] then NaN
      else float_div (fsum xs) (Num (Fin (of_nat (length (valid xs))))))"

text \<open>
  \<^verbatim>\<open>total_count\<close>, \<^verbatim>\<open>avg_price\<close> and \<^verbatim>\<open>avg_unit_price\<close>.
\<close>

definition summary_kpis :: "(pynum list \<Rightarrow> pynum) \<Rightarrow> txn list \<Rightarrow> nat \<times> pynum \<times> pynum" where
  "summary_kpis fsum df =
     (length df,
      if map thing_amt df = [] then Num (Fin 0) else series_mean fsum (map thing_amt df),
      if map unit_price df = [] then Num (Fin 0) else series_mean fsum (map unit_price df))"

text \<open>
  The figures are taken from \<^verbatim>\<open>df\<close> after the range has been applied to it.
\<close>

definition summary_view ::
    "(pynum list \<Rightarrow> pynum) \<Rightarrow> date list \<Rightarrow> txn list \<Rightarrow> nat \<times> pynum \<times> pynum" where
  "summary_view fsum date_range df = summary_kpis fsum (date_filter date_range df)"

subsection \<open>Monthly trend\<close>

text \<open>
  \<^verbatim>\<open>df.dropna(subset=[day, unit price])\<close>; the month of a contract day
  (\<^verbatim>\<open>dt.to_period('M')\<close>); \<^verbatim>\<open>groupby(month)[unit price].mean()\<close>, whose groups
  come in ascending order of the month, one for each month that occurs. Nothing is
  charted when no row is left.
\<close>

definition df_time :: "txn list \<Rightarrow> txn list" where
  "df_time df = filter (\<lambda>t. ctrt_day t \<noteq> NaT \<and> unit_price t \<noteq> NaN) df"

definition to_period_M :: "timestamp \<Rightarrow> (nat \<times> nat) option" where
  "to_period_M x = (case x of NaT \<Rightarrow> None | Ts (y, m, d) \<Rightarrow> Some (y, m))"

definition df_group :: "(pynum list \<Rightarrow> pynum) \<Rightarrow> txn list \<Rightarrow> ((nat \<times> nat) \<times> pynum) list option" where
  "df_group fsum df =
     (if df_time df = [] then None
      else Some (map (\<lambda>k. (k, series_mean fsum (map unit_price
                                  (filter (\<lambda>t. to_period_M (ctrt_day t) = Some k) (df_time df)))))
                     (sort (remdups (List.map_filter (\<lambda>t. to_period_M (ctrt_day t)) (df_time df))))))"

subsection \<open>Top five by amount\<close>

text \<open>
  \<^verbatim>\<open>df.dropna(subset=[amount])\<close>, then \<^verbatim>\<open>nlargest(5, amount)\<close>:
  the first \<open>n\<close> rows in descending order of the column, rows of equal value in their
  original order (\<^verbatim>\<open>keep='first'\<close>), rows without a value last. The second
  \<^verbatim>\<open>pd.to_numeric\<close> leaves the numeric column as it is.
\<close>

definition df_top5 :: "txn list \<Rightarrow> txn list" where
  "df_top5 df = filter (\<lambda>t. thing_amt t \<noteq> NaN) df"

definition descending :: "pynum \<Rightarrow> bool \<times> int \<times> rat" where
  "descending x =
     (case x of
        NaN \<Rightarrow> (True, 0, 0)
      | Num PosInf \<Rightarrow> (False, - 1, 0)
      | Num (Fin v) \<Rightarrow> (False, 0, - v)
      | Num NegInf \<Rightarrow> (False, 1, 0))"

definition nlargest :: "nat \<Rightarrow> txn list \<Rightarrow> txn list" where
  "nlargest n df = take n (sort_key (\<lambda>t. descending (thing_amt t)) df)"

definition top5 :: "txn list \<Rightarrow> txn list" where
  "top5 df = nlargest 5 (df_top5 df)"

subsection \<open>Addresses for the map\<close>

text \<open>
  An f-string prints \<^verbatim>\<open>None\<close> as the word None and \<^verbatim>\<open>NaN\<close> as nan. A text cell
  is true when it is a non-empty string or \<^verbatim>\<open>NaN\<close>. The city prefix is the UTF-8
  text of the Korean name of Seoul Special City that the source writes out.
\<close>

definition format_field :: "text_cell \<Rightarrow> string" where
  "format_field x = (case x of PyNone \<Rightarrow> ''None'' | NaN_cell \<Rightarrow> ''nan'' | Str s \<Rightarrow> s)"

definition cell_truthy :: "text_cell \<Rightarrow> bool" where
  "cell_truthy x = (case x of PyNone \<Rightarrow> False | NaN_cell \<Rightarrow> True | Str s \<Rightarrow> s \<noteq> [])"

definition seoul :: string where
  "seoul = [CHR 0xEC, CHR 0x84, CHR 0x9C, CHR 0xEC, CHR 0x9A, CHR 0xB8, CHR 0xED, CHR 0x8A,
            CHR 0xB9, CHR 0xEB, CHR 0xB3, CHR 0x84, CHR 0xEC, CHR 0x8B, CHR 0x9C]"

text \<open>
  The address of a row in the map loop; \<open>None\<close> for a row the loop skips because
  \<^verbatim>\<open>row[main lot]\<close> is false.
\<close>

definition address :: "txn \<Rightarrow> string option" where
  "address row =
     (if cell_truthy (mno row)
      then (if sno row \<in> set [Str ''0000'', Str [], PyNone]
            then Some (seoul @ '' '' @ format_field (cgg_nm row) @ '' '' @ format_field (stdg_nm row)
                       @ '' '' @ format_field (mno row))
            else Some (seoul @ '' '' @ format_field (cgg_nm row) @ '' '' @ format_field (stdg_nm row)
                       @ '' '' @ format_field (mno row) @ ''-'' @ format_field (sno row)))
      else None)"

subsection \<open>Sample rows\<close>

definition sample_row :: "string \<Rightarrow> string \<Rightarrow> string \<Rightarrow> filtered_row" where
  "sample_row day amount area =
     \<lparr> rcpt_yr = Some ''2023'', cgg_nm = Some ''Gangseo-gu'', stdg_nm = Some ''Hwagok-dong'',
       mno = Some ''0012'', sno = Some ''0003'', bldg_nm = Some ''Tower'',
       ctrt_day_text = Some day, thing_amt_text = Some amount, arch_area_text = Some area \<rparr>"

definition sample_txn :: "string \<Rightarrow> timestamp \<Rightarrow> pynum \<Rightarrow> pynum \<Rightarrow> pynum \<Rightarrow> txn" where
  "sample_txn name day amount area price =
     \<lparr> rcpt_yr = Str ''2023'', cgg_nm = Str ''Gangseo-gu'', stdg_nm = Str ''Hwagok-dong'',
       mno = Str ''0012'', sno = Str ''0003'', bldg_nm = Str name,
       ctrt_day = day, thing_amt = amount, arch_area = area, unit_price = price \<rparr>"

section \<open>Properties of the filter\<close>

lemma row_data_as_row: "row_data (as_row d) = d"
  by (simp add: row_data_def as_row_def text_or_empty_def find_child_def)

lemma text_or_empty_as_row:
  "text_or_empty (as_row d) ''CGG_NM'' = cgg_nm d"
  "text_or_empty (as_row d) ''STDG_NM'' = stdg_nm d"
  by (simp_all add: as_row_def text_or_empty_def find_child_def)

text \<open>
  On rows whose district and sub-district children are absent or carry text, the loop
  never raises and keeps exactly the rows that pass the two substring tests, a missing
  child counting as the empty string.
\<close>

lemma row_matches_text:
  "row_matches district dong (Some c) (Some s) =
     Inr (sublist district c \<and> (dong = [] \<or> sublist dong s))"
  by (cases "sublist district c") (simp_all add: row_matches_def py_in_def)

lemma filter_rows_with_text:
  assumes "\<forall>row \<in> set rows. text_or_empty row ''CGG_NM'' \<noteq> None \<and> text_or_empty row ''STDG_NM'' \<noteq> None"
  shows "filter_rows district dong rows =
         Inr (map row_data
                (filter (\<lambda>row. sublist district (the (text_or_empty row ''CGG_NM'')) \<and>
                              (dong = [] \<or> sublist dong (the (text_or_empty row ''STDG_NM''))))
                   rows))"
  using assms
proof (induction rows)
  case Nil
  show ?case by simp
next
  case (Cons row rows)
  then obtain c s where "text_or_empty row ''CGG_NM'' = Some c" "text_or_empty row ''STDG_NM'' = Some s"
    by auto
  with Cons show ?case
    by (simp add: row_matches_text)
qed

lemma missing_child_is_empty: "find_child row tag = None \<Longrightarrow> text_or_empty row tag = Some []"
  by (simp add: text_or_empty_def)

text \<open>
  Claim C2. The filter is claimed to keep a row exactly when the district field contains
  the district and, for a non-empty sub-district argument, the sub-district field
  contains it, with a missing field read as the empty string and never a failure. The
  source guards the absent child only. A child that is present without text has
  \<^verbatim>\<open>.text = None\<close>, which the guard lets through, and the substring test on it
  raises \<^verbatim>\<open>TypeError\<close>: here on a row with an empty \<^verbatim>\<open><CGG_NM/>\<close>.
\<close>

theorem filter_rows_empty_district_element:
  "filter_rows ''Gangseo'' ''Hwagok''
     [[(''CGG_NM'', None), (''STDG_NM'', Some ''Hwagok-dong''), (''MNO'', Some ''0012'')]]
   = Inl TypeError"
  by (simp add: row_matches_def py_in_def text_or_empty_def find_child_def)

lemma filter_rows_retained:
  "filter_rows district dong rows = Inr out \<Longrightarrow> d \<in> set out \<Longrightarrow>
     row_matches district dong (cgg_nm d) (stdg_nm d) = Inr True"
proof (induction rows arbitrary: out)
  case Nil
  then show ?case by simp
next
  case (Cons row rows)
  then show ?case
    by (auto simp: row_data_def split: sum.splits if_splits)
qed

lemma filter_rows_as_row:
  "\<forall>d \<in> set ds. row_matches district dong (cgg_nm d) (stdg_nm d) = Inr True \<Longrightarrow>
     filter_rows district dong (map as_row ds) = Inr ds"
  by (induction ds) (simp_all add: text_or_empty_as_row row_data_as_row)

text \<open>
  Claim C8. Filtering is idempotent: when the filter has produced a list of rows,
  filtering that list again (each retained dictionary read as a row) with the same
  district and sub-district gives the same list.
\<close>

theorem filter_rows_idempotent:
  assumes "filter_rows district dong rows = Inr out"
  shows "filter_rows district dong (map as_row out) = Inr out"
  using assms filter_rows_retained filter_rows_as_row by blast

theorem filter_rows_idempotent_witness:
  "filter_rows ''Gangseo'' ''Hwagok''
     [[(''CGG_NM'', Some ''Gangseo-gu''), (''STDG_NM'', Some ''Hwagok-dong''), (''MNO'', Some ''0012'')],
      [(''CGG_NM'', Some ''Mapo-gu''), (''STDG_NM'', Some ''Hwagok-dong'')],
      [(''CGG_NM'', Some ''Gangseo-gu'')]]
   = Inr [\<lparr> rcpt_yr = Some [], cgg_nm = Some ''Gangseo-gu'', stdg_nm = Some ''Hwagok-dong'',
             mno = Some ''0012'', sno = Some [], bldg_nm = Some [], ctrt_day_text = Some [],
             thing_amt_text = Some [], arch_area_text = Some [] \<rparr>]
   \<and> filter_rows ''Gangseo'' ''Hwagok''
       (map as_row
          [\<lparr> rcpt_yr = Some [], cgg_nm = Some ''Gangseo-gu'', stdg_nm = Some ''Hwagok-dong'',
              mno = Some ''0012'', sno = Some [], bldg_nm = Some [], ctrt_day_text = Some [],
              thing_amt_text = Some [], arch_area_text = Some [] \<rparr>])
     = Inr [\<lparr> rcpt_yr = Some [], cgg_nm = Some ''Gangseo-gu'', stdg_nm = Some ''Hwagok-dong'',
               mno = Some ''0012'', sno = Some [], bldg_nm = Some [], ctrt_day_text = Some [],
               thing_amt_text = Some [], arch_area_text = Some [] \<rparr>]"
proof -
  have h: "filter_rows ''Gangseo'' ''Hwagok''
     [[(''CGG_NM'', Some ''Gangseo-gu''), (''STDG_NM'', Some ''Hwagok-dong''), (''MNO'', Some ''0012'')],
      [(''CGG_NM'', Some ''Mapo-gu''), (''STDG_NM'', Some ''Hwagok-dong'')],
      [(''CGG_NM'', Some ''Gangseo-gu'')]]
   = Inr [\<lparr> rcpt_yr = Some [], cgg_nm = Some ''Gangseo-gu'', stdg_nm = Some ''Hwagok-dong'',
             mno = Some ''0012'', sno = Some [], bldg_nm = Some [], ctrt_day_text = Some [],
             thing_amt_text = Some [], arch_area_text = Some [] \<rparr>]"
    by (simp add: row_matches_def py_in_def text_or_empty_def find_child_def row_data_def
        sublist_code prefix_code)
  show ?thesis
    using h filter_rows_idempotent [OF h] by simp
qed

section \<open>Properties of the fetch\<close>

text \<open>
  What the handler around the request does: when the request raises, or the response
  has a status that \<^verbatim>\<open>raise_for_status\<close> rejects, the error is reported and the
  empty list is returned, whatever the body.
\<close>

lemma query_real_estate_handled:
  "query_real_estate RequestException district dong = ([St_error], Inr [])"
  "raise_for_status status_code \<Longrightarrow>
     query_real_estate (Response status_code body) district dong = ([St_error], Inr [])"
  by (simp_all add: query_real_estate_def)

text \<open>
  Claim C3. The fetch is claimed to report the error and return the empty list also
  when the XML body fails to parse, never raising. The source parses the body after the
  \<^verbatim>\<open>try\<close> block, outside the handler that does this for the request: a response
  with status 200 whose body is not well-formed XML makes the call raise
  \<^verbatim>\<open>ParseError\<close>; nothing is reported and no list is returned.
\<close>

theorem query_real_estate_malformed_body:
  "query_real_estate (Response 200 Malformed) ''Gangseo'' ''Hwagok'' = ([], Inl ParseError) \<and>
   query_real_estate (Response 200 Malformed) ''Gangseo'' ''Hwagok'' \<noteq> ([St_error], Inr []) \<and>
   query_real_estate (Response 404 Malformed) ''Gangseo'' ''Hwagok'' = ([St_error], Inr []) \<and>
   query_real_estate RequestException ''Gangseo'' ''Hwagok'' = ([St_error], Inr [])"
  by (simp add: query_real_estate_def raise_for_status_def)

section \<open>Properties of the numbers\<close>

text \<open>
  Rounding at work: an exact quotient stays, one third becomes the nearest double, and
  \<open>2 ^ 53 + 1\<close> becomes \<open>2 ^ 53\<close>.
\<close>

lemma floor_rat_numeral:
  "\<lfloor>numeral a / numeral b :: rat\<rfloor> = numeral a div numeral b"
  "\<lfloor>1 / numeral b :: rat\<rfloor> = 1 div numeral b"
  by (metis floor_divide_of_int_eq of_int_numeral, metis floor_divide_of_int_eq of_int_numeral of_int_1)

lemmas round64_eval = round64_def round_pos_def ilog2_def pow2_def round_half_even_def bits.simps Let_def
  floor_rat_numeral

lemma round64_samples:
  "round64 0 = Fin 0" "round64 25 = Fin 25" "round64 50000 = Fin 50000"
  "round64 (50000 / 25) = Fin 2000" "round64 2000 = Fin 2000"
  "round64 (1 / 3) = Fin (6004799503160661 / 2 ^ 54)"
  "round64 9007199254740993 = Fin 9007199254740992"
  by (simp_all add: round64_eval)

lemma float64_order [simp]:
  "Fin a \<le> Fin b \<longleftrightarrow> a \<le> b" "Fin a < Fin b \<longleftrightarrow> a < b"
  "NegInf \<le> x" "x \<le> PosInf" "Fin a < PosInf" "NegInf < Fin a" "NegInf < PosInf"
  "\<not> PosInf < x" "\<not> x < NegInf" "\<not> PosInf \<le> Fin a" "\<not> Fin a \<le> NegInf" "\<not> PosInf \<le> NegInf"
  by (cases x; simp add: less_eq_float64_def less_float64_def)+

lemma gt_zero_cases:
  "gt area 0 \<longleftrightarrow> area = Num PosInf \<or> (\<exists>b. area = Num (Fin b) \<and> 0 < b)"
proof (cases area)
  case NaN
  then show ?thesis by (simp add: gt_def)
next
  case (Num v)
  then show ?thesis by (cases v) (simp_all add: gt_def)
qed

section \<open>Properties of the conversion\<close>

lemma unit_price_lambda_eq:
  "unit_price_lambda amount area =
     Inr (if gt area 0 then Some (float_div amount area) else None)"
proof (cases "gt area 0")
  case True
  then have "truthy area" "area \<noteq> Num (Fin 0)"
    by (auto simp: gt_zero_cases truthy_def)
  with True show ?thesis by (simp add: unit_price_lambda_def truediv_def)
next
  case False
  then show ?thesis by (simp add: unit_price_lambda_def)
qed


lemma convert_row_eq:
  "convert_row infer_string strptime number results r =
     Inr \<lparr> rcpt_yr = frame_cell infer_string (map rcpt_yr results) (rcpt_yr r),
           cgg_nm = frame_cell infer_string (map cgg_nm results) (cgg_nm r),
           stdg_nm = frame_cell infer_string (map stdg_nm results) (stdg_nm r),
           mno = frame_cell infer_string (map mno results) (mno r),
           sno = frame_cell infer_string (map sno results) (sno r),
           bldg_nm = frame_cell infer_string (map bldg_nm results) (bldg_nm r),
           ctrt_day = to_datetime strptime (ctrt_day_text r),
           thing_amt = to_numeric number (thing_amt_text r),
           arch_area = to_numeric number (arch_area_text r),
           unit_price =
             (if gt (to_numeric number (arch_area_text r)) 0
              then float_div (to_numeric number (thing_amt_text r)) (to_numeric number (arch_area_text r))
              else NaN) \<rparr>"
  by (simp add: convert_row_def unit_price_lambda_eq column_cell_def Let_def)

lemma convert_rows_all2:
  "\<exists>df. convert_rows infer_string strptime number results rs = Inr df \<and>
        list_all2 (\<lambda>r t. convert_row infer_string strptime number results r = Inr t) rs df"
proof (induction rs)
  case Nil
  show ?case by simp
next
  case (Cons r rs)
  then obtain df where df: "convert_rows infer_string strptime number results rs = Inr df"
      "list_all2 (\<lambda>r t. convert_row infer_string strptime number results r = Inr t) rs df"
    by blast
  obtain t where t: "convert_row infer_string strptime number results r = Inr t"
    using convert_row_eq by blast
  show ?case using df t by simp
qed

lemma convert_data_all2:
  "\<exists>df. convert_data infer_string strptime number results = Inr df \<and>
        list_all2 (\<lambda>r t. convert_row infer_string strptime number results r = Inr t) results df"
  using convert_rows_all2 [of infer_string strptime number results results]
  by (auto simp: convert_data_def)

lemma convert_data_rows:
  assumes "convert_data infer_string strptime number results = Inr df"
  shows "list_all2 (\<lambda>r t. convert_row infer_string strptime number results r = Inr t) results df"
  using assms convert_data_all2 [of infer_string strptime number results] by auto


lemma convert_row_fields:
  assumes "convert_row infer_string strptime number results r = Inr t"
  shows "rcpt_yr t = frame_cell infer_string (map rcpt_yr results) (rcpt_yr r)"
        "cgg_nm t = frame_cell infer_string (map cgg_nm results) (cgg_nm r)"
        "stdg_nm t = frame_cell infer_string (map stdg_nm results) (stdg_nm r)"
        "mno t = frame_cell infer_string (map mno results) (mno r)"
        "sno t = frame_cell infer_string (map sno results) (sno r)"
        "bldg_nm t = frame_cell infer_string (map bldg_nm results) (bldg_nm r)"
        "ctrt_day t = to_datetime strptime (ctrt_day_text r)"
        "thing_amt t = to_numeric number (thing_amt_text r)"
        "arch_area t = to_numeric number (arch_area_text r)"
  using assms unfolding convert_row_eq by auto

lemma decimal_samples:
  "decimal ''50000'' = Some 50000" "decimal ''25'' = Some 25" "decimal ''0'' = Some 0"
  "decimal ''abc'' = None" "decimal ''inf'' = None"
  by (simp_all add: decimal_def digit_def)

lemma float_reader_samples:
  "float_reader ''50000'' = Some (Fin 50000)" "float_reader ''25'' = Some (Fin 25)"
  "float_reader ''0'' = Some (Fin 0)" "float_reader ''abc'' = None"
  "float_reader ''inf'' = Some PosInf"
  by (simp_all add: float_reader_def decimal_samples round64_samples)

lemma strptime_samples:
  "strptime_Ymd ''20230230'' = None" "strptime_Ymd ''20230315'' = Some (2023, 3, 15)"
  by (simp_all add: strptime_Ymd_def digit_def days_in_month_def is_leap_def)






text \<open>
  Claim C4. The conversion never raises: for every list of filtered rows it returns a
  table with one row for each input row, in which a contract day the date reader
  rejects has become \<^verbatim>\<open>NaT\<close> and an amount or area the number reader rejects has
  become \<^verbatim>\<open>NaN\<close>. The day 20230230, which names no calendar date, becomes
  \<^verbatim>\<open>NaT\<close>.
\<close>

theorem convert_data_never_raises:
  "(\<exists>df. convert_data infer_string strptime number results = Inr df \<and> length df = length results \<and>
      (\<forall>i < length results.
         (\<forall>s. ctrt_day_text (results ! i) = Some s \<and> strptime s = None \<longrightarrow> ctrt_day (df ! i) = NaT) \<and>
         (\<forall>s. thing_amt_text (results ! i) = Some s \<and> number s = None \<longrightarrow> thing_amt (df ! i) = NaN) \<and>
         (\<forall>s. arch_area_text (results ! i) = Some s \<and> number s = None \<longrightarrow> arch_area (df ! i) = NaN))) \<and>
   (\<forall>r. ctrt_day_text r = Some ''20230230'' \<longrightarrow>
      (\<exists>t. convert_data infer_string strptime_Ymd number [r] = Inr [t] \<and> ctrt_day t = NaT))"
proof (intro conjI allI impI)
  obtain df where df: "convert_data infer_string strptime number results = Inr df"
    and rel: "list_all2 (\<lambda>r t. convert_row infer_string strptime number results r = Inr t) results df"
    using convert_data_all2 by blast
  have len: "length df = length results"
    using rel by (simp add: list_all2_lengthD)
  have "\<forall>i < length results.
        (\<forall>s. ctrt_day_text (results ! i) = Some s \<and> strptime s = None \<longrightarrow> ctrt_day (df ! i) = NaT) \<and>
        (\<forall>s. thing_amt_text (results ! i) = Some s \<and> number s = None \<longrightarrow> thing_amt (df ! i) = NaN) \<and>
        (\<forall>s. arch_area_text (results ! i) = Some s \<and> number s = None \<longrightarrow> arch_area (df ! i) = NaN)"
  proof (intro allI impI)
    fix i assume "i < length results"
    then have row: "convert_row infer_string strptime number results (results ! i) = Inr (df ! i)"
      using rel by (simp add: list_all2_conv_all_nth)
    show "(\<forall>s. ctrt_day_text (results ! i) = Some s \<and> strptime s = None \<longrightarrow> ctrt_day (df ! i) = NaT) \<and>
        (\<forall>s. thing_amt_text (results ! i) = Some s \<and> number s = None \<longrightarrow> thing_amt (df ! i) = NaN) \<and>
        (\<forall>s. arch_area_text (results ! i) = Some s \<and> number s = None \<longrightarrow> arch_area (df ! i) = NaN)"
      by (auto simp: convert_row_fields [OF row] to_datetime_def to_numeric_def)
  qed
  with df len show "\<exists>df. convert_data infer_string strptime number results = Inr df \<and>
      length df = length results \<and>
      (\<forall>i < length results.
         (\<forall>s. ctrt_day_text (results ! i) = Some s \<and> strptime s = None \<longrightarrow> ctrt_day (df ! i) = NaT) \<and>
         (\<forall>s. thing_amt_text (results ! i) = Some s \<and> number s = None \<longrightarrow> thing_amt (df ! i) = NaN) \<and>
         (\<forall>s. arch_area_text (results ! i) = Some s \<and> number s = None \<longrightarrow> arch_area (df ! i) = NaN))"
    by blast
next
  fix r :: filtered_row
  assume day: "ctrt_day_text r = Some ''20230230''"
  obtain t where t: "convert_row infer_string strptime_Ymd number [r] r = Inr t"
    using convert_row_eq by blast
  have "ctrt_day t = NaT"
    by (simp add: convert_row_fields [OF t] day to_datetime_def strptime_samples)
  with t show "\<exists>t. convert_data infer_string strptime_Ymd number [r] = Inr [t] \<and> ctrt_day t = NaT"
    by (simp add: convert_data_def)
qed

theorem convert_data_never_raises_witness:
  "\<exists>df. convert_data False strptime_Ymd float_reader
          [sample_row ''20230315'' ''50000'' ''0'', sample_row ''20230230'' ''50000'' ''25'',
           sample_row ''20230315'' ''abc'' ''25''] = Inr df \<and>
        length df = 3 \<and> ctrt_day (df ! 1) = NaT \<and> thing_amt (df ! 2) = NaN"
proof -
  from convert_data_never_raises [of False strptime_Ymd float_reader
      "[sample_row ''20230315'' ''50000'' ''0'', sample_row ''20230230'' ''50000'' ''25'',
        sample_row ''20230315'' ''abc'' ''25'']"]
  obtain df where df: "convert_data False strptime_Ymd float_reader
          [sample_row ''20230315'' ''50000'' ''0'', sample_row ''20230230'' ''50000'' ''25'',
           sample_row ''20230315'' ''abc'' ''25''] = Inr df"
    and len: "length df = 3"
    and cells: "\<forall>i < 3.
         (\<forall>s. ctrt_day_text ([sample_row ''20230315'' ''50000'' ''0'', sample_row ''20230230'' ''50000'' ''25'',
                 sample_row ''20230315'' ''abc'' ''25''] ! i) = Some s \<and> strptime_Ymd s = None
               \<longrightarrow> ctrt_day (df ! i) = NaT) \<and>
         (\<forall>s. thing_amt_text ([sample_row ''20230315'' ''50000'' ''0'', sample_row ''20230230'' ''50000'' ''25'',
                 sample_row ''20230315'' ''abc'' ''25''] ! i) = Some s \<and> float_reader s = None
               \<longrightarrow> thing_amt (df ! i) = NaN) \<and>
         (\<forall>s. arch_area_text ([sample_row ''20230315'' ''50000'' ''0'', sample_row ''20230230'' ''50000'' ''25'',
                 sample_row ''20230315'' ''abc'' ''25''] ! i) = Some s \<and> float_reader s = None
               \<longrightarrow> arch_area (df ! i) = NaN)"
    by auto
  have "ctrt_day (df ! 1) = NaT"
    using cells [rule_format, of 1] by (simp add: sample_row_def strptime_samples)
  moreover have "thing_amt (df ! 2) = NaN"
    using cells [rule_format, of 2] by (simp add: sample_row_def float_reader_samples)
  ultimately show ?thesis using df len by blast
qed

lemma frame_cell_text: "frame_cell infer_string column (Some s) = Str s"
  by (simp add: frame_cell_def)

lemma frame_cell_none:
  "frame_cell infer_string column None =
     (if infer_string \<and> (\<exists>x \<in> set column. x \<noteq> None) then NaN_cell else PyNone)"
  by (simp add: frame_cell_def)

text \<open>
  Claim C10, as amended. The conversion keeps the number of rows. In every row each of
  the six text fields (reception year, district, sub-district, main lot, sub lot,
  building name) that holds a string keeps that string. A text field that is
  \<^verbatim>\<open>None\<close> stays \<^verbatim>\<open>None\<close> where pandas keeps object columns; where pandas
  infers string columns it becomes \<^verbatim>\<open>NaN\<close> if some row has a string in that
  column, and stays \<^verbatim>\<open>None\<close> otherwise. The contract day, the amount and the area
  are the retyped cells of the same row, and the unit price is the one field the typed
  row has in addition.
\<close>

theorem convert_data_frame:
  assumes "convert_data infer_string strptime number results = Inr df"
  shows "length df = length results \<and>
         (\<forall>i < length results.
            rcpt_yr (df ! i) = frame_cell infer_string (map rcpt_yr results) (rcpt_yr (results ! i)) \<and>
            cgg_nm (df ! i) = frame_cell infer_string (map cgg_nm results) (cgg_nm (results ! i)) \<and>
            stdg_nm (df ! i) = frame_cell infer_string (map stdg_nm results) (stdg_nm (results ! i)) \<and>
            mno (df ! i) = frame_cell infer_string (map mno results) (mno (results ! i)) \<and>
            sno (df ! i) = frame_cell infer_string (map sno results) (sno (results ! i)) \<and>
            bldg_nm (df ! i) = frame_cell infer_string (map bldg_nm results) (bldg_nm (results ! i)) \<and>
            ctrt_day (df ! i) = to_datetime strptime (ctrt_day_text (results ! i)) \<and>
            thing_amt (df ! i) = to_numeric number (thing_amt_text (results ! i)) \<and>
            arch_area (df ! i) = to_numeric number (arch_area_text (results ! i))) \<and>
         (\<forall>column s. frame_cell infer_string column (Some s) = Str s) \<and>
         (\<forall>column. frame_cell infer_string column None =
            (if infer_string \<and> (\<exists>x \<in> set column. x \<noteq> None) then NaN_cell else PyNone))"
proof -
  have rel: "list_all2 (\<lambda>r t. convert_row infer_string strptime number results r = Inr t) results df"
    using assms by (rule convert_data_rows)
  have "\<And>i. i < length results \<Longrightarrow>
          convert_row infer_string strptime number results (results ! i) = Inr (df ! i)"
    using rel by (simp add: list_all2_conv_all_nth)
  then show ?thesis
    using rel by (auto simp: list_all2_lengthD frame_cell_text frame_cell_none dest: convert_row_fields)
qed

theorem convert_data_frame_witness:
  "convert_data False strptime_Ymd float_reader
     [(sample_row ''20230315'' ''50000'' ''0'') \<lparr> sno := None \<rparr>, sample_row ''20230230'' ''50000'' ''25''] =
   Inr [(sample_txn ''Tower'' (Ts (2023, 3, 15)) (Num (Fin 50000)) (Num (Fin 0)) NaN) \<lparr> sno := PyNone \<rparr>,
        sample_txn ''Tower'' NaT (Num (Fin 50000)) (Num (Fin 25)) (Num (Fin 2000))] \<and>
   sno (sample_txn ''Tower'' NaT (Num (Fin 50000)) (Num (Fin 25)) (Num (Fin 2000))) = Str ''0003'' \<and>
   sno (sample_row ''20230230'' ''50000'' ''25'') = Some ''0003'' \<and>
   bldg_nm (sample_txn ''Tower'' NaT (Num (Fin 50000)) (Num (Fin 25)) (Num (Fin 2000))) = Str ''Tower''"
proof -
  have h: "convert_data False strptime_Ymd float_reader
     [(sample_row ''20230315'' ''50000'' ''0'') \<lparr> sno := None \<rparr>, sample_row ''20230230'' ''50000'' ''25''] =
   Inr [(sample_txn ''Tower'' (Ts (2023, 3, 15)) (Num (Fin 50000)) (Num (Fin 0)) NaN) \<lparr> sno := PyNone \<rparr>,
        sample_txn ''Tower'' NaT (Num (Fin 50000)) (Num (Fin 25)) (Num (Fin 2000))]"
    by (simp add: convert_data_def convert_row_eq sample_row_def sample_txn_def to_datetime_def
      to_numeric_def float_reader_samples strptime_samples frame_cell_def gt_def round64_samples)
  show ?thesis
    using h convert_data_frame [OF h] by (simp add: sample_txn_def sample_row_def)
qed

text \<open>
  Claim C10 as stated fails: where pandas infers string columns, the sub lot number of a
  row built from an empty \<^verbatim>\<open><SNO/>\<close> is \<^verbatim>\<open>None\<close> in the dictionary and
  \<^verbatim>\<open>NaN\<close> in the table, once another row has a sub lot number.
\<close>

theorem convert_data_none_becomes_nan:
  "convert_data True strptime_Ymd float_reader
     [(sample_row ''20230315'' ''50000'' ''0'') \<lparr> sno := None \<rparr>, sample_row ''20230230'' ''50000'' ''25''] =
   Inr [(sample_txn ''Tower'' (Ts (2023, 3, 15)) (Num (Fin 50000)) (Num (Fin 0)) NaN) \<lparr> sno := NaN_cell \<rparr>,
        sample_txn ''Tower'' NaT (Num (Fin 50000)) (Num (Fin 25)) (Num (Fin 2000))] \<and>
   sno ((sample_row ''20230315'' ''50000'' ''0'') \<lparr> sno := None \<rparr>) = None \<and>
   sno ((sample_txn ''Tower'' (Ts (2023, 3, 15)) (Num (Fin 50000)) (Num (Fin 0)) NaN) \<lparr> sno := NaN_cell \<rparr>)
     \<noteq> PyNone"
  by (simp add: convert_data_def convert_row_eq sample_row_def sample_txn_def to_datetime_def
      to_numeric_def float_reader_samples strptime_samples frame_cell_def gt_def round64_samples)

section \<open>Properties of the views\<close>

text \<open>
  The figures are those of the table after the contract-day range has been applied:
  zero for both means when it has no rows, the means of the two columns otherwise.
\<close>

lemma summary_view_cases:
  assumes "cur = date_filter date_range df"
  shows "fst (summary_view fsum date_range df) = length cur \<and>
         (cur = [] \<longrightarrow> summary_view fsum date_range df = (0, Num (Fin 0), Num (Fin 0))) \<and>
         (cur \<noteq> [] \<longrightarrow>
            summary_view fsum date_range df =
              (length cur, series_mean fsum (map thing_amt cur), series_mean fsum (map unit_price cur)))"
  using assms by (simp add: summary_view_def summary_kpis_def)

lemma series_mean_all_missing: "valid xs = [] \<Longrightarrow> series_mean fsum xs = NaN"
  by (simp add: series_mean_def)

lemma series_mean_rounds:
  "series_mean float_sum [Num (Fin 9007199254740993)] = Num (Fin 9007199254740992)"
  "series_mean float_sum [Num (Fin 1000), NaN, Num (Fin 2000)] = Num (Fin 1500)"
  by (simp_all add: series_mean_def float_sum_def round64_eval)

text \<open>
  Claim C9. The mean over an empty set of values is claimed to be reported as zero,
  never as an undefined value. The source tests \<^verbatim>\<open>Series.empty\<close>, which is true
  for a table without rows only, and there the means are zero. A table of one row whose
  amount and unit price are missing has no value to average in either column, the test
  lets it through, and both means are \<^verbatim>\<open>NaN\<close>.
\<close>

theorem summary_view_all_missing:
  "valid (map thing_amt [sample_txn ''Tower'' NaT NaN NaN NaN]) = [] \<and>
   valid (map unit_price [sample_txn ''Tower'' NaT NaN NaN NaN]) = [] \<and>
   summary_view float_sum [] [sample_txn ''Tower'' NaT NaN NaN NaN] = (1, NaN, NaN) \<and>
   summary_view float_sum [] [sample_txn ''Tower'' NaT NaN NaN NaN] \<noteq> (1, Num (Fin 0), Num (Fin 0)) \<and>
   summary_view float_sum [] [] = (0, Num (Fin 0), Num (Fin 0))"
  by (simp add: summary_view_def summary_kpis_def series_mean_def date_filter_def sample_txn_def)

lemma set_map_filter_conv: "set (List.map_filter f xs) = {y. \<exists>x \<in> set xs. f x = Some y}"
  by (induction xs) (auto split: option.splits)

lemma to_period_M_eq: "to_period_M x = Some (y, m) \<longleftrightarrow> (\<exists>d. x = Ts (y, m, d))"
  by (cases x) (auto simp: to_period_M_def)

lemma month_of_df_time:
  "filter (\<lambda>t. to_period_M (ctrt_day t) = Some (y, m)) (df_time df)
     = filter (\<lambda>t. (\<exists>d. ctrt_day t = Ts (y, m, d)) \<and> unit_price t \<noteq> NaN) df"
  unfolding df_time_def filter_filter by (rule filter_cong) (auto simp: to_period_M_eq)

lemma valid_present: "\<forall>x \<in> set xs. x \<noteq> NaN \<Longrightarrow> length (valid xs) = length xs"
proof (induction xs)
  case Nil
  show ?case by simp
next
  case (Cons x xs)
  then show ?case by (cases x) simp_all
qed

lemma df_group_keys:
  assumes "df_group fsum df = Some g"
  shows "map fst g = sort (remdups (List.map_filter (\<lambda>t. to_period_M (ctrt_day t)) (df_time df)))"
  using assms by (auto simp: df_group_def o_def split: if_splits)

lemma df_group_mean:
  assumes "df_group fsum df = Some g" and "(k, v) \<in> set g"
  shows "v = series_mean fsum (map unit_price (filter (\<lambda>t. to_period_M (ctrt_day t) = Some k) (df_time df)))"
  using assms by (auto simp: df_group_def split: if_splits)

lemma df_group_none:
  "df_group fsum df = None \<longleftrightarrow> (\<forall>t \<in> set df. ctrt_day t = NaT \<or> unit_price t = NaN)"
  by (auto simp: df_group_def df_time_def filter_empty_conv)

text \<open>
  Claim C6. The monthly aggregate exists exactly when some row has both a contract day
  and a unit price. It has one group for each (year, month) in which such a row lies,
  in ascending order, and the value of the group of a month is the mean of the unit
  prices of the rows that have a unit price and a contract day in that month: their
  \<^verbatim>\<open>float64\<close> sum divided by their number. A row without a contract day or
  without a unit price counts nowhere. (Two rows of March 2023 with unit prices 1000
  and 2000 give one group with mean 1500, apart from the group of January 2022: the
  example after the theorem.)
\<close>

theorem df_group_monthly_mean:
  "(df_group fsum df = None \<longleftrightarrow> (\<forall>t \<in> set df. ctrt_day t = NaT \<or> unit_price t = NaN)) \<and>
   (\<forall>g. df_group fsum df = Some g \<longrightarrow>
      sorted (map fst g) \<and> distinct (map fst g) \<and>
      set (map fst g) = {(y, m). \<exists>t \<in> set df. \<exists>d. ctrt_day t = Ts (y, m, d) \<and> unit_price t \<noteq> NaN} \<and>
      (\<forall>((y, m), v) \<in> set g.
         v = float_div
               (fsum (map unit_price
                  (filter (\<lambda>t. (\<exists>d. ctrt_day t = Ts (y, m, d)) \<and> unit_price t \<noteq> NaN) df)))
               (Num (Fin (of_nat (length
                  (filter (\<lambda>t. (\<exists>d. ctrt_day t = Ts (y, m, d)) \<and> unit_price t \<noteq> NaN) df)))))))"
proof (intro conjI allI impI)
  show "df_group fsum df = None \<longleftrightarrow> (\<forall>t \<in> set df. ctrt_day t = NaT \<or> unit_price t = NaN)"
    by (rule df_group_none)
next
  fix g assume g: "df_group fsum df = Some g"
  note keys = df_group_keys [OF g]
  show "sorted (map fst g)" by (simp add: keys)
  show "distinct (map fst g)" by (simp add: keys)
  show months: "set (map fst g) =
      {(y, m). \<exists>t \<in> set df. \<exists>d. ctrt_day t = Ts (y, m, d) \<and> unit_price t \<noteq> NaN}"
    unfolding keys by (auto simp: set_map_filter_conv df_time_def to_period_M_eq)
  show "\<forall>((y, m), v) \<in> set g.
         v = float_div
               (fsum (map unit_price
                  (filter (\<lambda>t. (\<exists>d. ctrt_day t = Ts (y, m, d)) \<and> unit_price t \<noteq> NaN) df)))
               (Num (Fin (of_nat (length
                  (filter (\<lambda>t. (\<exists>d. ctrt_day t = Ts (y, m, d)) \<and> unit_price t \<noteq> NaN) df)))))"
  proof clarify
    fix y m v assume in_g: "((y, m), v) \<in> set g"
    let ?month = "filter (\<lambda>t. (\<exists>d. ctrt_day t = Ts (y, m, d)) \<and> unit_price t \<noteq> NaN) df"
    have mean: "v = series_mean fsum (map unit_price ?month)"
      using df_group_mean [OF g in_g] by (simp only: month_of_df_time)
    have count: "length (valid (map unit_price ?month)) = length ?month"
      using valid_present [of "map unit_price ?month"] by simp
    have "(y, m) \<in> set (map fst g)" using in_g by force
    then obtain t d where "t \<in> set df" "ctrt_day t = Ts (y, m, d)" "unit_price t \<noteq> NaN"
      unfolding months by blast
    then have "t \<in> set ?month" by simp
    then have pos: "0 < length ?month" by (rule length_pos_if_in_set)
    have "0 < length (valid (map unit_price ?month))"
      unfolding count by (rule pos)
    then have "valid (map unit_price ?month) \<noteq> []"
      by simp
    with mean count show "v = float_div (fsum (map unit_price ?month)) (Num (Fin (of_nat (length ?month))))"
      by (simp add: series_mean_def)
  qed
qed

lemma sample_df_group:
  "df_group float_sum
     [sample_txn ''a'' (Ts (2022, 1, 10)) (Num (Fin 700)) (Num (Fin 100)) (Num (Fin 7)),
      sample_txn ''b'' (Ts (2023, 3, 15)) (Num (Fin 25000)) (Num (Fin 25)) (Num (Fin 1000)),
      sample_txn ''c'' (Ts (2023, 3, 20)) (Num (Fin 50000)) (Num (Fin 25)) (Num (Fin 2000)),
      sample_txn ''d'' NaT (Num (Fin 50000)) (Num (Fin 5)) (Num (Fin 10000)),
      sample_txn ''e'' (Ts (2023, 3, 2)) (Num (Fin 50000)) NaN NaN]
   = Some [((2022, 1), Num (Fin 7)), ((2023, 3), Num (Fin 1500))]"
  by (simp add: df_group_def df_time_def to_period_M_def series_mean_def float_sum_def sample_txn_def
      round64_eval)

theorem df_group_monthly_mean_witness:
  "df_group float_sum
     [sample_txn ''a'' (Ts (2022, 1, 10)) (Num (Fin 700)) (Num (Fin 100)) (Num (Fin 7)),
      sample_txn ''b'' (Ts (2023, 3, 15)) (Num (Fin 25000)) (Num (Fin 25)) (Num (Fin 1000)),
      sample_txn ''c'' (Ts (2023, 3, 20)) (Num (Fin 50000)) (Num (Fin 25)) (Num (Fin 2000)),
      sample_txn ''d'' NaT (Num (Fin 50000)) (Num (Fin 5)) (Num (Fin 10000)),
      sample_txn ''e'' (Ts (2023, 3, 2)) (Num (Fin 50000)) NaN NaN]
   = Some [((2022, 1), Num (Fin 7)), ((2023, 3), Num (Fin 1500))] \<and>
   Num (Fin 1500) = float_div (float_sum [Num (Fin 1000), Num (Fin 2000)]) (Num (Fin (of_nat (length
     (filter (\<lambda>t. (\<exists>d. ctrt_day t = Ts (2023, 3, d)) \<and> unit_price t \<noteq> NaN)
       [sample_txn ''a'' (Ts (2022, 1, 10)) (Num (Fin 700)) (Num (Fin 100)) (Num (Fin 7)),
        sample_txn ''b'' (Ts (2023, 3, 15)) (Num (Fin 25000)) (Num (Fin 25)) (Num (Fin 1000)),
        sample_txn ''c'' (Ts (2023, 3, 20)) (Num (Fin 50000)) (Num (Fin 25)) (Num (Fin 2000)),
        sample_txn ''d'' NaT (Num (Fin 50000)) (Num (Fin 5)) (Num (Fin 10000)),
        sample_txn ''e'' (Ts (2023, 3, 2)) (Num (Fin 50000)) NaN NaN]))))) \<and>
   float_div (float_sum [Num (Fin 1000), Num (Fin 2000)]) (Num (Fin 2)) = Num (Fin 1500)"
proof -
  have mean: "float_div (float_sum [Num (Fin 1000), Num (Fin 2000)]) (Num (Fin 2)) = Num (Fin 1500)"
    by (simp add: float_sum_def round64_eval)
  show ?thesis
    using sample_df_group mean
      df_group_monthly_mean [of float_sum
       "[sample_txn ''a'' (Ts (2022, 1, 10)) (Num (Fin 700)) (Num (Fin 100)) (Num (Fin 7)),
        sample_txn ''b'' (Ts (2023, 3, 15)) (Num (Fin 25000)) (Num (Fin 25)) (Num (Fin 1000)),
        sample_txn ''c'' (Ts (2023, 3, 20)) (Num (Fin 50000)) (Num (Fin 25)) (Num (Fin 2000)),
        sample_txn ''d'' NaT (Num (Fin 50000)) (Num (Fin 5)) (Num (Fin 10000)),
        sample_txn ''e'' (Ts (2023, 3, 2)) (Num (Fin 50000)) NaN NaN]"]
    by (simp add: sample_txn_def)
qed

lemma descending_Num: "descending x = descending (Num v) \<longleftrightarrow> x = Num v"
proof (cases x)
  case NaN
  then show ?thesis by (cases v) (simp_all add: descending_def)
next
  case (Num w)
  then show ?thesis by (cases w; cases v) (simp_all add: descending_def)
qed

lemma descending_le:
  "descending (Num x) \<le> descending (Num y) \<longleftrightarrow> y \<le> x"
  by (cases x; cases y) (simp_all add: descending_def)

lemma filter_amount_df_top5:
  "filter (\<lambda>t. thing_amt t = Num v) (df_top5 df) = filter (\<lambda>t. thing_amt t = Num v) df"
  unfolding df_top5_def filter_filter by (rule filter_cong) auto

lemma filter_amount_sort:
  "filter (\<lambda>t. thing_amt t = Num v) (sort_key (\<lambda>t. descending (thing_amt t)) xs)
     = filter (\<lambda>t. thing_amt t = Num v) xs"
  using sort_key_stable [of "\<lambda>t. descending (thing_amt t)" "descending (Num v)" xs]
  by (simp add: descending_Num)

lemma top5_split:
  "sort_key (\<lambda>t. descending (thing_amt t)) (df_top5 df)
     = top5 df @ drop 5 (sort_key (\<lambda>t. descending (thing_amt t)) (df_top5 df))"
  by (simp add: top5_def nlargest_def)

lemma top5_sorted_keys: "sorted (map (\<lambda>t. descending (thing_amt t)) (top5 df))"
proof -
  have "sorted (map (\<lambda>t. descending (thing_amt t)) (sort_key (\<lambda>t. descending (thing_amt t)) (df_top5 df)))"
    by (rule sorted_sort_key)
  then show ?thesis
    by (subst (asm) top5_split) (simp add: sorted_append)
qed

lemma top5_present: "t \<in> set (top5 df) \<Longrightarrow> t \<in> set df \<and> thing_amt t \<noteq> NaN"
proof -
  assume "t \<in> set (top5 df)"
  then have "t \<in> set (sort_key (\<lambda>t. descending (thing_amt t)) (df_top5 df))"
    unfolding top5_def nlargest_def by (rule in_set_takeD)
  then show ?thesis by (simp add: df_top5_def)
qed

lemma top5_descending:
  "sorted_wrt (\<lambda>a b. \<exists>x y. thing_amt a = Num x \<and> thing_amt b = Num y \<and> y \<le> x) (top5 df)"
proof -
  have "sorted_wrt (\<lambda>a b. descending (thing_amt a) \<le> descending (thing_amt b)) (top5 df)"
    using top5_sorted_keys [of df] by (simp add: sorted_map)
  then show ?thesis
  proof (rule sorted_wrt_mono_rel [rotated])
    fix a b
    assume a: "a \<in> set (top5 df)" and b: "b \<in> set (top5 df)"
      and le: "descending (thing_amt a) \<le> descending (thing_amt b)"
    obtain x y where xy: "thing_amt a = Num x" "thing_amt b = Num y"
      using top5_present [OF a] top5_present [OF b] by (metis pynum.exhaust)
    with le have "y \<le> x" by (simp add: descending_le)
    with xy show "\<exists>x y. thing_amt a = Num x \<and> thing_amt b = Num y \<and> y \<le> x" by blast
  qed
qed

lemma top5_ties:
  "prefix (filter (\<lambda>t. thing_amt t = Num v) (top5 df)) (filter (\<lambda>t. thing_amt t = Num v) df)"
proof -
  have "prefix (top5 df) (sort_key (\<lambda>t. descending (thing_amt t)) (df_top5 df))"
    unfolding top5_def nlargest_def by (rule take_is_prefix)
  then have "prefix (filter (\<lambda>t. thing_amt t = Num v) (top5 df))
      (filter (\<lambda>t. thing_amt t = Num v) (sort_key (\<lambda>t. descending (thing_amt t)) (df_top5 df)))"
    by (rule filter_mono_prefix)
  then show ?thesis
    by (simp add: filter_amount_sort filter_amount_df_top5)
qed

lemma top5_largest:
  assumes t: "t \<in> set (top5 df)" and w: "thing_amt t = Num w" and less: "w < v"
  shows "filter (\<lambda>t. thing_amt t = Num v) (top5 df) = filter (\<lambda>t. thing_amt t = Num v) df"
proof -
  let ?key = "\<lambda>t. descending (thing_amt t)"
  let ?s = "sort_key ?key (df_top5 df)"
  have "sorted (map ?key (top5 df @ drop 5 ?s))"
    using sorted_sort_key [of ?key "df_top5 df"] top5_split [of df] by simp
  then have cross: "\<forall>a \<in> set (top5 df). \<forall>b \<in> set (drop 5 ?s). ?key a \<le> ?key b"
    by (auto simp: sorted_append)
  have "filter (\<lambda>t. thing_amt t = Num v) (drop 5 ?s) = []"
  proof (clarsimp simp: filter_empty_conv)
    fix b assume b: "b \<in> set (drop 5 ?s)" and bv: "thing_amt b = Num v"
    from cross t b have "?key t \<le> ?key b" by blast
    with w bv have "v \<le> w" by (simp add: descending_le)
    with less show False by simp
  qed
  then have "filter (\<lambda>t. thing_amt t = Num v) ?s = filter (\<lambda>t. thing_amt t = Num v) (top5 df)"
    by (subst top5_split) simp
  then show ?thesis
    by (simp add: filter_amount_sort filter_amount_df_top5)
qed

text \<open>
  Claim C5. The top five are rows with an amount, at most five of them and as many as
  there are when fewer have an amount; they stand in descending order of the amount; the
  rows of one amount stand in their original order and are the first of that amount in
  the table; and every row whose amount is greater than that of a selected row is
  selected. (The amounts 100, 900, 500, 900, 300 give the two rows of 900 in their
  original order, then 500, 300 and 100: the example after the theorem.)
\<close>

theorem top5_selection:
  "set (top5 df) \<subseteq> {t \<in> set df. thing_amt t \<noteq> NaN} \<and>
   length (top5 df) = min 5 (length (filter (\<lambda>t. thing_amt t \<noteq> NaN) df)) \<and>
   sorted_wrt (\<lambda>a b. \<exists>x y. thing_amt a = Num x \<and> thing_amt b = Num y \<and> y \<le> x) (top5 df) \<and>
   (\<forall>v. prefix (filter (\<lambda>t. thing_amt t = Num v) (top5 df)) (filter (\<lambda>t. thing_amt t = Num v) df)) \<and>
   (\<forall>t v w. t \<in> set (top5 df) \<and> thing_amt t = Num w \<and> w < v \<longrightarrow>
      filter (\<lambda>t. thing_amt t = Num v) (top5 df) = filter (\<lambda>t. thing_amt t = Num v) df)"
proof (intro conjI allI impI)
  show "set (top5 df) \<subseteq> {t \<in> set df. thing_amt t \<noteq> NaN}"
    using top5_present by blast
  show "length (top5 df) = min 5 (length (filter (\<lambda>t. thing_amt t \<noteq> NaN) df))"
    by (simp add: top5_def nlargest_def df_top5_def min.commute)
  show "sorted_wrt (\<lambda>a b. \<exists>x y. thing_amt a = Num x \<and> thing_amt b = Num y \<and> y \<le> x) (top5 df)"
    by (rule top5_descending)
  show "prefix (filter (\<lambda>t. thing_amt t = Num v) (top5 df)) (filter (\<lambda>t. thing_amt t = Num v) df)" for v
    by (rule top5_ties)
  show "filter (\<lambda>t. thing_amt t = Num v) (top5 df) = filter (\<lambda>t. thing_amt t = Num v) df"
    if "t \<in> set (top5 df) \<and> thing_amt t = Num w \<and> w < v" for t v w
    using that top5_largest by blast
qed

lemma sample_top5:
  "top5 [sample_txn ''a'' NaT (Num (Fin 100)) NaN NaN, sample_txn ''b'' NaT (Num (Fin 900)) NaN NaN,
         sample_txn ''c'' NaT (Num (Fin 500)) NaN NaN, sample_txn ''d'' NaT (Num (Fin 900)) NaN NaN,
         sample_txn ''e'' NaT (Num (Fin 300)) NaN NaN]
   = [sample_txn ''b'' NaT (Num (Fin 900)) NaN NaN, sample_txn ''d'' NaT (Num (Fin 900)) NaN NaN,
      sample_txn ''c'' NaT (Num (Fin 500)) NaN NaN, sample_txn ''e'' NaT (Num (Fin 300)) NaN NaN,
      sample_txn ''a'' NaT (Num (Fin 100)) NaN NaN]"
  by (simp add: top5_def nlargest_def df_top5_def sample_txn_def descending_def)

theorem top5_selection_witness:
  "top5 [sample_txn ''a'' NaT (Num (Fin 100)) NaN NaN, sample_txn ''b'' NaT (Num (Fin 900)) NaN NaN,
         sample_txn ''c'' NaT (Num (Fin 500)) NaN NaN, sample_txn ''d'' NaT (Num (Fin 900)) NaN NaN,
         sample_txn ''e'' NaT (Num (Fin 300)) NaN NaN]
   = [sample_txn ''b'' NaT (Num (Fin 900)) NaN NaN, sample_txn ''d'' NaT (Num (Fin 900)) NaN NaN,
      sample_txn ''c'' NaT (Num (Fin 500)) NaN NaN, sample_txn ''e'' NaT (Num (Fin 300)) NaN NaN,
      sample_txn ''a'' NaT (Num (Fin 100)) NaN NaN] \<and>
   filter (\<lambda>t. thing_amt t = Num (Fin 900))
     (top5 [sample_txn ''a'' NaT (Num (Fin 100)) NaN NaN, sample_txn ''b'' NaT (Num (Fin 900)) NaN NaN,
            sample_txn ''c'' NaT (Num (Fin 500)) NaN NaN, sample_txn ''d'' NaT (Num (Fin 900)) NaN NaN,
            sample_txn ''e'' NaT (Num (Fin 300)) NaN NaN])
   = [sample_txn ''b'' NaT (Num (Fin 900)) NaN NaN, sample_txn ''d'' NaT (Num (Fin 900)) NaN NaN]"
  using sample_top5
    top5_selection [of "[sample_txn ''a'' NaT (Num (Fin 100)) NaN NaN, sample_txn ''b'' NaT (Num (Fin 900)) NaN NaN,
         sample_txn ''c'' NaT (Num (Fin 500)) NaN NaN, sample_txn ''d'' NaT (Num (Fin 900)) NaN NaN,
         sample_txn ''e'' NaT (Num (Fin 300)) NaN NaN]"]
  by (simp add: sample_txn_def)

text \<open>
  Claim C7. For a row with a non-empty main lot number the address is the city, the
  district, the sub-district and the main lot number, separated by blanks, when the sub
  lot number is \<^verbatim>\<open>None\<close>, the empty string or the string 0000; for every other sub
  lot number a hyphen and the sub lot number are appended. No other value stands for a
  missing sub lot number: a \<^verbatim>\<open>NaN\<close> cell is appended as nan.
\<close>

theorem address_rule:
  assumes "mno row = Str m" and "m \<noteq> []"
  shows "(sno row = PyNone \<or> sno row = Str [] \<or> sno row = Str ''0000'' \<longrightarrow>
            address row =
              Some (seoul @ '' '' @ format_field (cgg_nm row) @ '' '' @ format_field (stdg_nm row) @ '' '' @ m)) \<and>
         (\<forall>s. sno row = Str s \<and> s \<noteq> [] \<and> s \<noteq> ''0000'' \<longrightarrow>
            address row =
              Some (seoul @ '' '' @ format_field (cgg_nm row) @ '' '' @ format_field (stdg_nm row) @ '' '' @ m
                    @ ''-'' @ s)) \<and>
         (sno row = NaN_cell \<longrightarrow>
            address row =
              Some (seoul @ '' '' @ format_field (cgg_nm row) @ '' '' @ format_field (stdg_nm row) @ '' '' @ m
                    @ ''-nan''))"
  using assms by (auto simp: address_def format_field_def cell_truthy_def)

theorem address_rule_witness:
  "address (sample_txn ''Tower'' NaT NaN NaN NaN) = Some (seoul @ '' Gangseo-gu Hwagok-dong 0012-0003'') \<and>
   address ((sample_txn ''Tower'' NaT NaN NaN NaN) \<lparr> sno := Str ''0000'' \<rparr>)
     = Some (seoul @ '' Gangseo-gu Hwagok-dong 0012'')"
proof -
  have a: "mno (sample_txn ''Tower'' NaT NaN NaN NaN) = Str ''0012''" "''0012'' \<noteq> []"
    by (simp_all add: sample_txn_def)
  have b: "mno ((sample_txn ''Tower'' NaT NaN NaN NaN) \<lparr> sno := Str ''0000'' \<rparr>) = Str ''0012''"
    by (simp add: sample_txn_def)
  show ?thesis
    using address_rule [OF a] address_rule [OF b a(2)]
    by (simp add: sample_txn_def format_field_def)
qed

end
